theory Spec2Isabelle
  imports Complex_Main
begin

section \<open>Data model\<close>

text \<open>
  The embedding follows \<^verbatim>\<open>src/bigwig_loader/dataset.py\<close> and
  \<^verbatim>\<open>src/bigwig_loader/pytorch.py\<close>. Python integers are \<open>int\<close>; an optional
  argument is an \<open>option\<close>; an exception is a value of \<open>error\<close>, returned together
  with the state the object is left in when it is raised.
\<close>

datatype error = AttributeError | RuntimeError | ValueError | TypeError | StopIteration

type_synonym path = string

type_synonym position = "string \<times> int"

text \<open>One row of the \<^verbatim>\<open>regions_of_interest\<close> table.\<close>

record region =
  region_chromosome :: string
  region_start :: int
  region_end :: int

text \<open>
  The \<^verbatim>\<open>collection\<close> argument: an instance of \<^verbatim>\<open>BigWigCollection\<close> or something
  else (a path specification). Python's \<^verbatim>\<open>None\<close> is \<open>None\<close> of the option type the
  argument is given at.
\<close>

datatype 'h collection_arg = Handle 'h | Pathspec path

text \<open>A keyword argument that the caller may leave out.\<close>

datatype 'a arg = Omitted | Given 'a

definition or_default :: "'a arg \<Rightarrow> 'a \<Rightarrow> 'a" where
  "or_default a d = (case a of Omitted \<Rightarrow> d | Given v \<Rightarrow> v)"

text \<open>
  The keyword arguments of the three constructors that the scheduling depends on. The others
  (reference genome path, encoder, file extensions, ...) are only handed on to the
  collaborators. Arguments other than \<^verbatim>\<open>center_bin_to_predict\<close> are given here with their
  defaults already filled in, since all three constructors agree on those defaults.
\<close>

record 'h kwargs =
  regions_of_interest :: "region list"
  collection :: "'h collection_arg option"
  sequence_length :: int
  center_bin_to_predict :: "int option arg"
  window_size :: int
  moving_average_window_size :: int
  batch_size :: int
  super_batch_size :: "int option"
  batches_per_epoch :: "int option"

text \<open>
  The collaborators whose code is outside \<^verbatim>\<open>src/\<close>, as parameters:
  \<^item> \<open>BigWigCollection p\<close> opens the collection at a path;
  \<^item> \<open>genome_get_batch i b\<close> is the result of the \<open>i\<close>-th call of
    \<^verbatim>\<open>Genome.get_batch\<close> on a genome made for batch size \<open>b\<close>: the sampled positions
    and their encoded sequences;
  \<^item> \<open>collection_get_batch c chromosomes start end window_size\<close> is the signal array
    returned by \<^verbatim>\<open>BigWigCollection.get_batch\<close>, as the list of its rows along the first
    axis;
  \<^item> \<open>smooth\<close> is the smoothing pass of \<^verbatim>\<open>moving_average\<close> for windows other than 1.
\<close>

record ('h, 's, 't) collaborators =
  BigWigCollection :: "path \<Rightarrow> 'h"
  genome_get_batch :: "nat \<Rightarrow> int \<Rightarrow> position list \<times> 's list"
  collection_get_batch :: "'h \<Rightarrow> string list \<Rightarrow> int list \<Rightarrow> int list \<Rightarrow> int \<Rightarrow> 't list"
  smooth :: "'t list \<Rightarrow> int \<Rightarrow> 't list"

text \<open>
  The fields of \<^verbatim>\<open>BigWigSuperDataset\<close>. \<open>sd_prepared_out\<close> is the address of the
  buffer made by \<^verbatim>\<open>cp.zeros\<close>; \<open>sd_allocated\<close> counts the buffers allocated so far and
  \<open>sd_genome_calls\<close> the calls of \<^verbatim>\<open>Genome.get_batch\<close> (the state of the position
  sampler, which lives on across epochs).
\<close>

record 'h BigWigSuperDataset =
  sd_bigwig_collection :: "'h option"
  sd_bigwig_path :: "path option"
  sd_sequence_length :: int
  sd_center_bin_to_predict :: int
  sd_window_size :: int
  sd_batch_size :: int
  sd_batches_per_epoch :: int
  sd_n :: int
  sd_moving_average_window_size :: int
  sd_prepared_out :: "nat option"
  sd_allocated :: nat
  sd_genome_calls :: nat

text \<open>The fields of \<^verbatim>\<open>BigWigDataset\<close>.\<close>

record ('h, 's, 't) BigWigDataset =
  ds_batch_size :: int
  ds_batches_per_epoch :: int
  ds_super_dataset :: "'h BigWigSuperDataset"
  ds_super_batch_sequences :: "'s list option"
  ds_super_batch_targets :: "'t list option"
  ds_n :: int
  ds_offset :: int

section \<open>Epoch arithmetic\<close>

text \<open>\<^verbatim>\<open>(regions_of_interest["end"] - regions_of_interest["start"]).sum()\<close>\<close>

definition total_bases :: "region list \<Rightarrow> int" where
  "total_bases rs = sum_list (map (\<lambda>r. region_end r - region_start r) rs)"

text \<open>
  \<^verbatim>\<open>x or y\<close> on an optional integer: \<^verbatim>\<open>None\<close> and \<open>0\<close> are both false.
\<close>

definition py_or :: "int option \<Rightarrow> int \<Rightarrow> int" where
  "py_or x y = (case x of None \<Rightarrow> y | Some v \<Rightarrow> if v = 0 then y else v)"

text \<open>
  \<^verbatim>\<open>batches_per_epoch or R // sequence_length // batch_size\<close>. Python's \<^verbatim>\<open>//\<close> is
  floor division, as \<open>div\<close> on \<open>int\<close> is, and associates to the left. The theorems
  below are about positive \<^verbatim>\<open>sequence_length\<close> and \<^verbatim>\<open>batch_size\<close>, where no
  division by zero arises.
\<close>

definition default_batches_per_epoch :: "region list \<Rightarrow> int \<Rightarrow> int \<Rightarrow> int" where
  "default_batches_per_epoch rs L B = total_bases rs div L div B"

definition plan_batches_per_epoch :: "int option \<Rightarrow> region list \<Rightarrow> int \<Rightarrow> int \<Rightarrow> int" where
  "plan_batches_per_epoch explicit rs L B = py_or explicit (default_batches_per_epoch rs L B)"

text \<open>
  \<^verbatim>\<open>math.ceil(a / b)\<close>. The source takes the ceiling of a float quotient, which is the
  ceiling of the exact quotient as long as \<open>a\<close> is below \<open>2 ^ 53\<close> in size; the model
  takes the ceiling of the exact quotient (\<open>ceil_div_ceiling\<close> below).
\<close>

definition ceil_div :: "int \<Rightarrow> int \<Rightarrow> int" where
  "ceil_div a b = - ((- a) div b)"

definition super_batches_per_epoch :: "int \<Rightarrow> int \<Rightarrow> int \<Rightarrow> int" where
  "super_batches_per_epoch B bpe S = ceil_div (B * bpe) S"

section \<open>BigWigSuperDataset\<close>

text \<open>
  \<^verbatim>\<open>BigWigSuperDataset.__init__\<close>. It raises nothing: a \<^verbatim>\<open>collection\<close> that is not a
  \<^verbatim>\<open>BigWigCollection\<close> is stored as the path, whatever it is.
\<close>

definition BigWigSuperDataset_init :: "'h kwargs \<Rightarrow> 'h BigWigSuperDataset" where
  "BigWigSuperDataset_init kw =
     \<lparr> sd_bigwig_collection = (case collection kw of Some (Handle c) \<Rightarrow> Some c | _ \<Rightarrow> None),
       sd_bigwig_path = (case collection kw of Some (Pathspec p) \<Rightarrow> Some p | _ \<Rightarrow> None),
       sd_sequence_length = sequence_length kw,
       sd_center_bin_to_predict = py_or (or_default (center_bin_to_predict kw) None) (sequence_length kw),
       sd_window_size = window_size kw,
       sd_batch_size = batch_size kw,
       sd_batches_per_epoch =
         plan_batches_per_epoch (batches_per_epoch kw) (regions_of_interest kw)
           (sequence_length kw) (batch_size kw),
       sd_n = 0,
       sd_moving_average_window_size = moving_average_window_size kw,
       sd_prepared_out = None,
       sd_allocated = 0,
       sd_genome_calls = 0 \<rparr>"

text \<open>The property \<^verbatim>\<open>bigwig_collection\<close>: the handle, opened from the path on first use.\<close>

definition bigwig_collection ::
  "('h, 's, 't) collaborators \<Rightarrow> 'h BigWigSuperDataset \<Rightarrow> error + 'h \<times> 'h BigWigSuperDataset" where
  "bigwig_collection env sd =
     (case sd_bigwig_collection sd of
        Some c \<Rightarrow> Inr (c, sd)
      | None \<Rightarrow>
          (case sd_bigwig_path sd of
             Some p \<Rightarrow> Inr (BigWigCollection env p, sd\<lparr>sd_bigwig_collection := Some (BigWigCollection env p)\<rparr>)
           | None \<Rightarrow> Inl RuntimeError))"

text \<open>\<^verbatim>\<open>BigWigSuperDataset.reset_gpu\<close>: the collaborator's reset, reached through the property.\<close>

definition BigWigSuperDataset_reset_gpu ::
  "('h, 's, 't) collaborators \<Rightarrow> 'h BigWigSuperDataset \<Rightarrow> error + 'h BigWigSuperDataset" where
  "BigWigSuperDataset_reset_gpu env sd =
     (case bigwig_collection env sd of Inl e \<Rightarrow> Inl e | Inr (c, sd') \<Rightarrow> Inr sd')"

text \<open>
  The property \<^verbatim>\<open>_out\<close>, read once the collection is there: the buffer is allocated when
  \<^verbatim>\<open>_prepared_out\<close> is \<^verbatim>\<open>None\<close> and kept from then on.
\<close>

definition out_buffer :: "'h BigWigSuperDataset \<Rightarrow> nat \<times> 'h BigWigSuperDataset" where
  "out_buffer sd =
     (case sd_prepared_out sd of
        Some a \<Rightarrow> (a, sd)
      | None \<Rightarrow> (sd_allocated sd,
                 sd\<lparr>sd_prepared_out := Some (sd_allocated sd), sd_allocated := Suc (sd_allocated sd)\<rparr>))"

text \<open>
  Modelled from the spec: \<^verbatim>\<open>bigwig_loader.cupy_functions.moving_average\<close> is imported by
  \<^verbatim>\<open>dataset.py\<close> and is not among the source files. The spec's SignalPostProcessor: with
  window 1 the output is the input unchanged; any other window is the smoothing pass of the
  collaborator.
\<close>

definition moving_average :: "('t list \<Rightarrow> int \<Rightarrow> 't list) \<Rightarrow> 't list \<Rightarrow> int \<Rightarrow> 't list" where
  "moving_average smoothing signal w = (if w = 1 then signal else smoothing signal w)"

text \<open>The scoring window of a sampled centre, as \<^verbatim>\<open>__next__\<close> computes \<^verbatim>\<open>start\<close> and \<^verbatim>\<open>end\<close>.\<close>

definition window_start :: "int \<Rightarrow> int \<Rightarrow> int" where
  "window_start C center = center - C div 2"

definition window_end :: "int \<Rightarrow> int \<Rightarrow> int" where
  "window_end C center = window_start C center + C"

text \<open>\<^verbatim>\<open>BigWigSuperDataset.__iter__\<close>\<close>

definition BigWigSuperDataset_iter :: "'h BigWigSuperDataset \<Rightarrow> 'h BigWigSuperDataset" where
  "BigWigSuperDataset_iter sd = sd\<lparr>sd_n := 0\<rparr>"

text \<open>
  \<^verbatim>\<open>BigWigSuperDataset.__next__\<close>. \<^verbatim>\<open>zip(*positions)\<close> cannot be unpacked into two
  names when there is no position.
\<close>

definition BigWigSuperDataset_next ::
  "('h, 's, 't) collaborators \<Rightarrow> 'h BigWigSuperDataset
     \<Rightarrow> (error + 's list \<times> 't list) \<times> 'h BigWigSuperDataset" where
  "BigWigSuperDataset_next env sd =
     (if sd_n sd < sd_batches_per_epoch sd then
        let sd1 = sd\<lparr>sd_n := sd_n sd + 1\<rparr>;
            (positions, sequences) = genome_get_batch env (sd_genome_calls sd1) (sd_batch_size sd1);
            sd2 = sd1\<lparr>sd_genome_calls := Suc (sd_genome_calls sd1)\<rparr>
        in if positions = [] then (Inl ValueError, sd2)
           else
             let chromosomes = map fst positions;
                 center = map snd positions;
                 start = map (window_start (sd_center_bin_to_predict sd2)) center;
                 stop = map (window_end (sd_center_bin_to_predict sd2)) center
             in (case bigwig_collection env sd2 of
                   Inl e \<Rightarrow> (Inl e, sd2)
                 | Inr (c, sd3) \<Rightarrow>
                     let (buf, sd4) = out_buffer sd3;
                         target = collection_get_batch env c chromosomes start stop (sd_window_size sd4);
                         target' = moving_average (smooth env) target (sd_moving_average_window_size sd4)
                     in (Inr (sequences, target'), sd4))
      else (Inl StopIteration, sd))"

section \<open>BigWigDataset\<close>

text \<open>
  \<^verbatim>\<open>BigWigDataset.__init__\<close>: \<^verbatim>\<open>super_batch_size or batch_size\<close>, the check against
  \<^verbatim>\<open>batch_size\<close>, the two counts, and the inner dataset made for the super-batch size.
\<close>

definition BigWigDataset_init :: "'h kwargs \<Rightarrow> error + ('h, 's, 't) BigWigDataset" where
  "BigWigDataset_init kw =
     (let S = py_or (super_batch_size kw) (batch_size kw)
      in if S < batch_size kw then Inl AttributeError
         else
           let bpe = plan_batches_per_epoch (batches_per_epoch kw) (regions_of_interest kw)
                       (sequence_length kw) (batch_size kw);
               sbpe = super_batches_per_epoch (batch_size kw) bpe S
           in Inr \<lparr> ds_batch_size = batch_size kw,
                    ds_batches_per_epoch = bpe,
                    ds_super_dataset =
                      BigWigSuperDataset_init
                        (kw\<lparr> center_bin_to_predict := Given (or_default (center_bin_to_predict kw) None),
                             batch_size := S,
                             batches_per_epoch := Some sbpe \<rparr>),
                    ds_super_batch_sequences = None,
                    ds_super_batch_targets = None,
                    ds_n = 0,
                    ds_offset = 0 \<rparr>)"

text \<open>\<^verbatim>\<open>BigWigDataset.reset_gpu\<close>\<close>

definition BigWigDataset_reset_gpu ::
  "('h, 's, 't) collaborators \<Rightarrow> ('h, 's, 't) BigWigDataset \<Rightarrow> error + ('h, 's, 't) BigWigDataset" where
  "BigWigDataset_reset_gpu env d =
     (case BigWigSuperDataset_reset_gpu env (ds_super_dataset d) of
        Inl e \<Rightarrow> Inl e
      | Inr sd' \<Rightarrow> Inr (d\<lparr>ds_super_dataset := sd'\<rparr>))"

text \<open>\<^verbatim>\<open>BigWigDataset.__iter__\<close>\<close>

definition BigWigDataset_iter :: "('h, 's, 't) BigWigDataset \<Rightarrow> ('h, 's, 't) BigWigDataset" where
  "BigWigDataset_iter d =
     d\<lparr>ds_n := 0, ds_offset := 0, ds_super_dataset := BigWigSuperDataset_iter (ds_super_dataset d)\<rparr>"

text \<open>
  Python's \<^verbatim>\<open>a[i:j]\<close> along the first axis: an index below zero counts from the end, and
  both ends are clipped to the array.
\<close>

definition clip_index :: "nat \<Rightarrow> int \<Rightarrow> nat" where
  "clip_index n i = (if i < 0 then nat (max 0 (int n + i)) else min n (nat i))"

definition slice :: "'a list \<Rightarrow> int \<Rightarrow> int \<Rightarrow> 'a list" where
  "slice xs i j =
     take (clip_index (length xs) j - clip_index (length xs) i) (drop (clip_index (length xs) i) xs)"

text \<open>The condition of the \<^verbatim>\<open>if\<close> in \<^verbatim>\<open>BigWigDataset.__next__\<close>.\<close>

definition needs_refill :: "('h, 's, 't) BigWigDataset \<Rightarrow> bool" where
  "needs_refill d \<longleftrightarrow>
     ds_super_batch_sequences d = None \<or> ds_super_batch_targets d = None
     \<or> ds_offset d + ds_batch_size d > sd_batch_size (ds_super_dataset d)"

text \<open>The body of that \<^verbatim>\<open>if\<close>: the next super-batch is stored and the offset goes back to 0.\<close>

definition refill ::
  "('h, 's, 't) collaborators \<Rightarrow> ('h, 's, 't) BigWigDataset
     \<Rightarrow> (error \<times> ('h, 's, 't) BigWigDataset) + ('h, 's, 't) BigWigDataset" where
  "refill env d =
     (case BigWigSuperDataset_next env (ds_super_dataset d) of
        (Inl e, sd') \<Rightarrow> Inl (e, d\<lparr>ds_super_dataset := sd'\<rparr>)
      | (Inr (sequences, target), sd') \<Rightarrow>
          Inr (d\<lparr>ds_super_dataset := sd',
                 ds_super_batch_sequences := Some sequences,
                 ds_super_batch_targets := Some target,
                 ds_offset := 0\<rparr>))"

text \<open>
  The two slices and the advance of the offset. Subscripting \<^verbatim>\<open>None\<close> would raise
  \<^verbatim>\<open>TypeError\<close>; after the refill check neither array is \<^verbatim>\<open>None\<close>.
\<close>

definition take_batch ::
  "('h, 's, 't) BigWigDataset \<Rightarrow> (error + 's list \<times> 't list) \<times> ('h, 's, 't) BigWigDataset" where
  "take_batch d =
     (case (ds_super_batch_sequences d, ds_super_batch_targets d) of
        (Some ss, Some ts) \<Rightarrow>
          (Inr (slice ss (ds_offset d) (ds_offset d + ds_batch_size d),
                slice ts (ds_offset d) (ds_offset d + ds_batch_size d)),
           d\<lparr>ds_offset := ds_offset d + ds_batch_size d\<rparr>)
      | _ \<Rightarrow> (Inl TypeError, d))"

text \<open>\<^verbatim>\<open>BigWigDataset.__next__\<close>\<close>

definition BigWigDataset_next ::
  "('h, 's, 't) collaborators \<Rightarrow> ('h, 's, 't) BigWigDataset
     \<Rightarrow> (error + 's list \<times> 't list) \<times> ('h, 's, 't) BigWigDataset" where
  "BigWigDataset_next env d =
     (if ds_n d < ds_batches_per_epoch d then
        let d1 = d\<lparr>ds_n := ds_n d + 1\<rparr>
        in if needs_refill d1 then
             (case refill env d1 of
                Inl (e, d2) \<Rightarrow> (Inl e, d2)
              | Inr d2 \<Rightarrow> take_batch d2)
           else take_batch d1
      else (Inl StopIteration, d))"

section \<open>PytorchBigWigDataset\<close>

text \<open>
  \<^verbatim>\<open>PytorchBigWigDataset.__init__\<close> hands its arguments to \<^verbatim>\<open>BigWigDataset\<close>; the
  default of \<^verbatim>\<open>center_bin_to_predict\<close> in its signature is 200. The casts of
  \<^verbatim>\<open>__next__\<close> to tensors change no count and no row, so the adapter's state is the
  dataset it wraps.
\<close>

definition PytorchBigWigDataset_init :: "'h kwargs \<Rightarrow> error + ('h, 's, 't) BigWigDataset" where
  "PytorchBigWigDataset_init kw =
     BigWigDataset_init (kw\<lparr>center_bin_to_predict := Given (or_default (center_bin_to_predict kw) (Some 200))\<rparr>)"

section \<open>One epoch\<close>

text \<open>
  A \<^verbatim>\<open>for\<close> loop over the dataset: \<^verbatim>\<open>__iter__\<close> once, then \<^verbatim>\<open>__next__\<close> until it
  raises. \<open>drain\<close> returns the batches produced, the exception that ended the loop and the
  state left behind. Each call that returns a batch has counted \<open>ds_n\<close> up towards
  \<open>ds_batches_per_epoch\<close>, which is the measure of termination.
\<close>

function drain ::
  "('h, 's, 't) collaborators \<Rightarrow> ('h, 's, 't) BigWigDataset
     \<Rightarrow> ('s list \<times> 't list) list \<times> error \<times> ('h, 's, 't) BigWigDataset" where
  "drain env d =
     (case BigWigDataset_next env d of
        (Inl e, d') \<Rightarrow> ([], e, d')
      | (Inr b, d') \<Rightarrow> (case drain env d' of (bs, e, d'') \<Rightarrow> (b # bs, e, d'')))"
  by pat_completeness auto
termination
  apply (relation "measure (\<lambda>(env, d). nat (ds_batches_per_epoch d - ds_n d))")
   apply simp
  apply (auto simp: BigWigDataset_next_def take_batch_def refill_def Let_def
              split: if_splits sum.splits prod.splits option.splits)
  done

text \<open>The equation of \<open>drain\<close> is unfolded by hand, one call at a time.\<close>

declare drain.simps [simp del]

definition epoch ::
  "('h, 's, 't) collaborators \<Rightarrow> ('h, 's, 't) BigWigDataset
     \<Rightarrow> ('s list \<times> 't list) list \<times> error \<times> ('h, 's, 't) BigWigDataset" where
  "epoch env d = drain env (BigWigDataset_iter d)"

section \<open>Example collaborators and configurations\<close>

text \<open>
  Collaborators for running the model on concrete inputs. The \<open>i\<close>-th call of the genome
  returns \<open>b\<close> positions on one chromosome, centred at \<open>1000 * i + j\<close>, and the rows
  \<open>(i, j)\<close> as sequences, so that a row tells which fetch it came from. The signal row of
  a position is the start of its scoring window. The smoothing pass is a stand-in that
  reverses the rows, so that it shows where it is applied.
\<close>

definition example_collaborators :: "(unit, nat \<times> nat, int) collaborators" where
  "example_collaborators =
     \<lparr> BigWigCollection = (\<lambda>p. ()),
       genome_get_batch =
         (\<lambda>i b. (map (\<lambda>j. (''chr1'', 1000 * int i + int j)) [0..<nat b], map (\<lambda>j. (i, j)) [0..<nat b])),
       collection_get_batch = (\<lambda>c chromosomes start stop w. start),
       smooth = (\<lambda>signal w. rev signal) \<rparr>"

text \<open>
  One region of 10000 bases, \<^verbatim>\<open>sequence_length = 1000\<close>, a collection given as a handle,
  and the batch size, super-batch size and batches per epoch as stated.
\<close>

definition example_kwargs :: "int \<Rightarrow> int option \<Rightarrow> int option \<Rightarrow> unit kwargs" where
  "example_kwargs B S bpe =
     \<lparr> regions_of_interest = [\<lparr>region_chromosome = ''chr1'', region_start = 0, region_end = 10000\<rparr>],
       collection = Some (Handle ()),
       sequence_length = 1000,
       center_bin_to_predict = Omitted,
       window_size = 1,
       moving_average_window_size = 1,
       batch_size = B,
       super_batch_size = S,
       batches_per_epoch = bpe \<rparr>"

text \<open>The dataset built from a configuration, for the examples (the configuration is valid).\<close>

definition example_dataset :: "int \<Rightarrow> int option \<Rightarrow> int option \<Rightarrow> (unit, nat \<times> nat, int) BigWigDataset option" where
  "example_dataset B S bpe =
     (case BigWigDataset_init (example_kwargs B S bpe) of Inl e \<Rightarrow> None | Inr d \<Rightarrow> Some d)"

section \<open>Reachable states, invariants and contracts\<close>

text \<open>
  The states a dataset built from the arguments \<open>kw\<close> can be in: the one the constructor
  returns, and those that \<^verbatim>\<open>__next__\<close>, \<^verbatim>\<open>__iter__\<close> and \<^verbatim>\<open>reset_gpu\<close> lead to.
\<close>

inductive reachable ::
  "('h, 's, 't) collaborators \<Rightarrow> 'h kwargs \<Rightarrow> ('h, 's, 't) BigWigDataset \<Rightarrow> bool"
  for env :: "('h, 's, 't) collaborators" and kw :: "'h kwargs" where
  constructed: "BigWigDataset_init kw = Inr d \<Longrightarrow> reachable env kw d"
| advanced: "reachable env kw d \<Longrightarrow> reachable env kw (snd (BigWigDataset_next env d))"
| restarted: "reachable env kw d \<Longrightarrow> reachable env kw (BigWigDataset_iter d)"
| reset: "reachable env kw d \<Longrightarrow> BigWigDataset_reset_gpu env d = Inr d' \<Longrightarrow> reachable env kw d'"

text \<open>
  What stays true of a dataset with a positive batch size: the sizes and counts are those of
  the constructor; the offset is a multiple of the batch size between 0 and the super-batch
  size; the two arrays of the super-batch are there together or not at all; and the output
  buffer, once allocated, is the one buffer at address 0.
\<close>

definition consistent :: "'h kwargs \<Rightarrow> ('h, 's, 't) BigWigDataset \<Rightarrow> bool" where
  "consistent kw d \<longleftrightarrow>
     ds_batch_size d = batch_size kw
     \<and> sd_batch_size (ds_super_dataset d) = py_or (super_batch_size kw) (batch_size kw)
     \<and> batch_size kw \<le> sd_batch_size (ds_super_dataset d)
     \<and> ds_batches_per_epoch d =
         plan_batches_per_epoch (batches_per_epoch kw) (regions_of_interest kw) (sequence_length kw) (batch_size kw)
     \<and> sd_batches_per_epoch (ds_super_dataset d) =
         py_or (Some (super_batches_per_epoch (batch_size kw) (ds_batches_per_epoch d) (sd_batch_size (ds_super_dataset d))))
           (default_batches_per_epoch (regions_of_interest kw) (sequence_length kw) (sd_batch_size (ds_super_dataset d)))
     \<and> 0 \<le> ds_offset d
     \<and> ds_offset d \<le> sd_batch_size (ds_super_dataset d)
     \<and> ds_offset d mod ds_batch_size d = 0
     \<and> (ds_super_batch_sequences d = None) = (ds_super_batch_targets d = None)
     \<and> (if ds_super_batch_sequences d = None then ds_offset d = 0 else True)
     \<and> sd_allocated (ds_super_dataset d) \<le> 1
     \<and> sd_prepared_out (ds_super_dataset d) = (if sd_allocated (ds_super_dataset d) = 0 then None else Some 0)"

text \<open>\<open>k\<close> calls of \<^verbatim>\<open>__next__\<close> in a row, whatever they return.\<close>

fun nexts ::
  "('h, 's, 't) collaborators \<Rightarrow> nat \<Rightarrow> ('h, 's, 't) BigWigDataset \<Rightarrow> ('h, 's, 't) BigWigDataset" where
  "nexts env 0 d = d"
| "nexts env (Suc k) d = nexts env k (snd (BigWigDataset_next env d))"


text \<open>
  What the scheduling expects of its collaborators for super-batches of \<open>S\<close> rows: the
  genome returns \<open>S\<close> positions, at least one, with \<open>S\<close> sequences; the collection returns
  one signal row for each scoring window; smoothing keeps the number of rows.
\<close>

definition rows_contract :: "('h, 's, 't) collaborators \<Rightarrow> int \<Rightarrow> bool" where
  "rows_contract env S \<longleftrightarrow>
     (\<forall>i. fst (genome_get_batch env i S) \<noteq> []
          \<and> length (fst (genome_get_batch env i S)) = nat S
          \<and> length (snd (genome_get_batch env i S)) = nat S)
     \<and> (\<forall>c chromosomes start stop w.
          length (collection_get_batch env c chromosomes start stop w) = length start)
     \<and> (\<forall>signal w. length (smooth env signal w) = length signal)"

text \<open>The collection is there or can be opened from the path.\<close>

definition resolvable :: "'h BigWigSuperDataset \<Rightarrow> bool" where
  "resolvable sd \<longleftrightarrow> sd_bigwig_collection sd \<noteq> None \<or> sd_bigwig_path sd \<noteq> None"

text \<open>The loaded super-batch, if there is one, has as many rows as the inner batch size.\<close>

definition loaded_rows :: "('h, 's, 't) BigWigDataset \<Rightarrow> bool" where
  "loaded_rows d \<longleftrightarrow>
     (case ds_super_batch_sequences d of None \<Rightarrow> True
      | Some ss \<Rightarrow> length ss = nat (sd_batch_size (ds_super_dataset d)))
     \<and> (case ds_super_batch_targets d of None \<Rightarrow> True
        | Some ts \<Rightarrow> length ts = nat (sd_batch_size (ds_super_dataset d)))"

text \<open>
  The inner count against the outer one: the rows fetched in this epoch, less those beyond
  the offset, are covered by the batches counted so far and one super-batch.
\<close>

definition fetches_covered :: "('h, 's, 't) BigWigDataset \<Rightarrow> bool" where
  "fetches_covered d \<longleftrightarrow>
     0 \<le> ds_n d
     \<and> (if ds_super_batch_sequences d = None then sd_n (ds_super_dataset d) = 0
        else sd_n (ds_super_dataset d) * sd_batch_size (ds_super_dataset d) + ds_offset d
               \<le> ds_n d * ds_batch_size d + sd_batch_size (ds_super_dataset d))"

text \<open>
  A state from which batches can be taken: consistent, with a collection that can be opened
  and a loaded super-batch of the right number of rows.
\<close>

definition ready :: "'h kwargs \<Rightarrow> ('h, 's, 't) BigWigDataset \<Rightarrow> bool" where
  "ready kw d \<longleftrightarrow> consistent kw d \<and> resolvable (ds_super_dataset d) \<and> loaded_rows d"

text \<open>The invariant of a full epoch.\<close>

definition on_course :: "'h kwargs \<Rightarrow> ('h, 's, 't) BigWigDataset \<Rightarrow> bool" where
  "on_course kw d \<longleftrightarrow>
     ready kw d \<and> fetches_covered d
     \<and> sd_batches_per_epoch (ds_super_dataset d) =
         super_batches_per_epoch (ds_batch_size d) (ds_batches_per_epoch d) (sd_batch_size (ds_super_dataset d))"

section \<open>Basic facts\<close>

lemma ceil_div_ceiling: "ceil_div a b = \<lceil>real_of_int a / real_of_int b\<rceil>"
  by (simp add: ceil_div_def ceiling_divide_eq_div)

lemma ceil_div_pos: "0 < a \<Longrightarrow> 0 < b \<Longrightarrow> 0 < ceil_div a b"
  using div_neg_pos_less0 [of "- a" b] by (simp add: ceil_div_def)

lemma py_or_None [simp]: "py_or None y = y"
  by (simp add: py_or_def)

lemma py_or_Some: "py_or (Some v) y = (if v = 0 then y else v)"
  by (simp add: py_or_def)


lemma BigWigDataset_init_ok:
  "batch_size kw \<le> py_or (super_batch_size kw) (batch_size kw) \<Longrightarrow> \<exists>d. BigWigDataset_init kw = Inr d"
  by (simp add: BigWigDataset_init_def Let_def)

lemma BigWigDataset_init_fields:
  assumes "BigWigDataset_init kw = Inr d"
  shows "ds_batch_size d = batch_size kw"
    and "ds_batches_per_epoch d =
           plan_batches_per_epoch (batches_per_epoch kw) (regions_of_interest kw) (sequence_length kw) (batch_size kw)"
    and "sd_batch_size (ds_super_dataset d) = py_or (super_batch_size kw) (batch_size kw)"
    and "batch_size kw \<le> sd_batch_size (ds_super_dataset d)"
    and "sd_batches_per_epoch (ds_super_dataset d) =
           py_or (Some (super_batches_per_epoch (batch_size kw) (ds_batches_per_epoch d) (sd_batch_size (ds_super_dataset d))))
             (default_batches_per_epoch (regions_of_interest kw) (sequence_length kw) (sd_batch_size (ds_super_dataset d)))"
    and "ds_n d = 0" and "ds_offset d = 0" and "sd_n (ds_super_dataset d) = 0"
    and "ds_super_batch_sequences d = None" and "ds_super_batch_targets d = None"
    and "sd_bigwig_collection (ds_super_dataset d) = (case collection kw of Some (Handle c) \<Rightarrow> Some c | _ \<Rightarrow> None)"
    and "sd_bigwig_path (ds_super_dataset d) = (case collection kw of Some (Pathspec p) \<Rightarrow> Some p | _ \<Rightarrow> None)"
    and "sd_prepared_out (ds_super_dataset d) = None" and "sd_allocated (ds_super_dataset d) = 0"
    and "sd_center_bin_to_predict (ds_super_dataset d) = py_or (or_default (center_bin_to_predict kw) None) (sequence_length kw)"
    and "sd_moving_average_window_size (ds_super_dataset d) = moving_average_window_size kw"
  using assms
  by (auto simp: BigWigDataset_init_def BigWigSuperDataset_init_def Let_def plan_batches_per_epoch_def
      or_default_def split: if_splits)


lemma BigWigDataset_next_exhausted:
  "ds_batches_per_epoch d \<le> ds_n d \<Longrightarrow> BigWigDataset_next env d = (Inl StopIteration, d)"
  by (simp add: BigWigDataset_next_def)

section \<open>Batches per epoch\<close>




section \<open>The size check of the constructor\<close>




section \<open>Smoothing with window 1\<close>

lemma BigWigSuperDataset_next_exhausted:
  "sd_batches_per_epoch sd \<le> sd_n sd \<Longrightarrow> BigWigSuperDataset_next env sd = (Inl StopIteration, sd)"
  by (simp add: BigWigSuperDataset_next_def)

text \<open>
  Claim C5. \<^verbatim>\<open>moving_average\<close> with window 1 returns its input, whatever the rows of the
  signal are; and so a \<^verbatim>\<open>BigWigSuperDataset.__next__\<close> with
  \<^verbatim>\<open>moving_average_window_size = 1\<close> that returns a super-batch returns, as its signal,
  exactly the array that \<^verbatim>\<open>BigWigCollection.get_batch\<close> gave for the scoring windows of the
  sampled positions.
\<close>

theorem moving_average_window_1_identity:
  "moving_average smoothing signal 1 = signal
   \<and> (sd_moving_average_window_size sd = 1
        \<and> BigWigSuperDataset_next env sd = (Inr (sequences, target), sd')
        \<and> sd_bigwig_collection sd' = Some c \<longrightarrow>
        target =
          collection_get_batch env c
            (map fst (fst (genome_get_batch env (sd_genome_calls sd) (sd_batch_size sd))))
            (map (\<lambda>p. window_start (sd_center_bin_to_predict sd) (snd p))
               (fst (genome_get_batch env (sd_genome_calls sd) (sd_batch_size sd))))
            (map (\<lambda>p. window_end (sd_center_bin_to_predict sd) (snd p))
               (fst (genome_get_batch env (sd_genome_calls sd) (sd_batch_size sd))))
            (sd_window_size sd))"
proof (intro conjI impI)
  show "moving_average smoothing signal 1 = signal"
    by (simp add: moving_average_def)
next
  assume a: "sd_moving_average_window_size sd = 1
        \<and> BigWigSuperDataset_next env sd = (Inr (sequences, target), sd')
        \<and> sd_bigwig_collection sd' = Some c"
  then show "target =
          collection_get_batch env c
            (map fst (fst (genome_get_batch env (sd_genome_calls sd) (sd_batch_size sd))))
            (map (\<lambda>p. window_start (sd_center_bin_to_predict sd) (snd p))
               (fst (genome_get_batch env (sd_genome_calls sd) (sd_batch_size sd))))
            (map (\<lambda>p. window_end (sd_center_bin_to_predict sd) (snd p))
               (fst (genome_get_batch env (sd_genome_calls sd) (sd_batch_size sd))))
            (sd_window_size sd)"
    by (auto simp: BigWigSuperDataset_next_def bigwig_collection_def out_buffer_def moving_average_def
        Let_def comp_def split: if_splits prod.splits sum.splits option.splits)
qed

text \<open>
  The theorem at the inner dataset of the example configuration with super-batch size 2: the
  signal rows are the window starts \<open>- 500\<close> and \<open>- 499\<close> that the example collection
  returns.
\<close>

theorem moving_average_window_1_identity_witness:
  "moving_average (\<lambda>(signal :: int list) w. []) [3, 1, 2] 1 = [3, 1, 2]
   \<and> sd_moving_average_window_size (BigWigSuperDataset_init (example_kwargs 2 None (Some 1))) = 1
   \<and> fst (BigWigSuperDataset_next example_collaborators (BigWigSuperDataset_init (example_kwargs 2 None (Some 1))))
       = Inr ([(0, 0), (0, 1)], [- 500, - 499])"
proof -
  let ?sd = "BigWigSuperDataset_init (example_kwargs 2 None (Some 1))"
  obtain sd' where n: "BigWigSuperDataset_next example_collaborators ?sd = (Inr ([(0, 0), (0, 1)], [- 500, - 499]), sd')"
    and c: "sd_bigwig_collection sd' = Some ()"
    by (simp add: BigWigSuperDataset_next_def BigWigSuperDataset_init_def example_kwargs_def
        example_collaborators_def plan_batches_per_epoch_def py_or_def or_default_def
        bigwig_collection_def out_buffer_def moving_average_def window_start_def window_end_def
        Let_def upt_rec)
  show ?thesis
    using moving_average_window_1_identity
      [of "\<lambda>(signal :: int list) w. []" "[3, 1, 2]" ?sd example_collaborators
          "[(0, 0), (0, 1)]" "[- 500, - 499]" sd' "()"] n c
    by (simp add: BigWigSuperDataset_init_def example_kwargs_def)
qed

section \<open>A missing collection\<close>

lemma super_batches_per_epoch_pos:
  "0 < B \<Longrightarrow> 0 < bpe \<Longrightarrow> 0 < S \<Longrightarrow> 0 < super_batches_per_epoch B bpe S"
  by (simp add: super_batches_per_epoch_def ceil_div_pos)




section \<open>The default of \<^verbatim>\<open>center_bin_to_predict\<close> and the scoring window\<close>

lemma center_bin_default_BigWigSuperDataset:
  "center_bin_to_predict kw = Omitted \<Longrightarrow>
     sd_center_bin_to_predict (BigWigSuperDataset_init kw) = sequence_length kw"
  by (simp add: BigWigSuperDataset_init_def or_default_def)

lemma center_bin_default_BigWigDataset:
  "center_bin_to_predict kw = Omitted \<Longrightarrow> BigWigDataset_init kw = Inr d \<Longrightarrow>
     sd_center_bin_to_predict (ds_super_dataset d) = sequence_length kw"
  by (simp add: BigWigDataset_init_fields(15) or_default_def)

lemma center_bin_default_PytorchBigWigDataset:
  "center_bin_to_predict kw = Omitted \<Longrightarrow> PytorchBigWigDataset_init kw = Inr d \<Longrightarrow>
     sd_center_bin_to_predict (ds_super_dataset d) = 200"
  by (simp add: PytorchBigWigDataset_init_def BigWigDataset_init_fields(15) or_default_def py_or_def)

lemma scoring_window_length: "window_end C center - window_start C center = C"
  by (simp add: window_end_def)

lemma scoring_window_even:
  "even C \<Longrightarrow> window_start C center = center - C div 2 \<and> window_end C center = center + C div 2"
  by (auto simp: window_end_def window_start_def elim: evenE)

text \<open>
  Claim C9 at a failing input. \<^verbatim>\<open>PytorchBigWigDataset\<close> built with
  \<^verbatim>\<open>sequence_length = 1000\<close> and no \<^verbatim>\<open>center_bin_to_predict\<close> has
  \<^verbatim>\<open>center_bin_to_predict = 200\<close>, the default of its signature, where \<^verbatim>\<open>BigWigDataset\<close>
  built from the same arguments has 1000. The scoring window of a centre 5000 is then
  \<open>[4900, 5100)\<close>, of length 200.
\<close>

theorem pytorch_center_bin_default_200:
  "center_bin_to_predict (example_kwargs 4 None None) = Omitted
   \<and> sequence_length (example_kwargs 4 None None) = 1000
   \<and> map_sum id (\<lambda>d. sd_center_bin_to_predict (ds_super_dataset d))
        (PytorchBigWigDataset_init (example_kwargs 4 None None) :: error + (unit, nat \<times> nat, int) BigWigDataset)
       = Inr 200
   \<and> map_sum id (\<lambda>d. sd_center_bin_to_predict (ds_super_dataset d))
        (BigWigDataset_init (example_kwargs 4 None None) :: error + (unit, nat \<times> nat, int) BigWigDataset)
       = Inr 1000
   \<and> window_start 200 5000 = 4900 \<and> window_end 200 5000 = 5100"
  by (simp add: PytorchBigWigDataset_init_def BigWigDataset_init_def BigWigSuperDataset_init_def
      example_kwargs_def py_or_def or_default_def Let_def window_start_def window_end_def)

section \<open>An epoch that ends early\<close>

text \<open>
  Claim C1 at a failing input: \<^verbatim>\<open>batch_size = 4\<close>, \<^verbatim>\<open>super_batch_size = 6\<close> and
  \<^verbatim>\<open>batches_per_epoch = 3\<close>, a configuration that passes the size check. The inner dataset
  is made for \<open>ceil (12 / 6) = 2\<close> super-batches, each super-batch of 6 rows holds one batch
  of 4, and the third batch asks for a third super-batch: the epoch ends with
  \<^verbatim>\<open>StopIteration\<close> after 2 batches out of 3, the counter \<^verbatim>\<open>_n\<close> standing at 3.
\<close>

theorem epoch_two_of_three_batches:
  "map_option
     (\<lambda>d. case epoch example_collaborators d of
        (bs, e, d') \<Rightarrow> (ds_batches_per_epoch d, sd_batches_per_epoch (ds_super_dataset d), length bs, e, ds_n d'))
     (example_dataset 4 (Some 6) (Some 3))
   = Some (3, 2, 2, StopIteration, 3)"
  by code_simp

section \<open>A second epoch that ends early\<close>

text \<open>
  Claim C6 at a failing input: \<^verbatim>\<open>batch_size = 2\<close>, \<^verbatim>\<open>super_batch_size = 3\<close> and
  \<^verbatim>\<open>batches_per_epoch = 7\<close>. After a first epoch, \<^verbatim>\<open>reset_gpu\<close> and \<^verbatim>\<open>__iter__\<close> leave
  the counters at 0 and the super-batch in place, and the second epoch produces 6 batches out
  of 7: one from the super-batch left over, five from the \<open>ceil (14 / 3) = 5\<close> super-batches
  the inner dataset allows.
\<close>

theorem second_epoch_six_of_seven_batches:
  "map_option
     (\<lambda>d. case epoch example_collaborators d of
        (bs, e, d1) \<Rightarrow>
          (case BigWigDataset_reset_gpu example_collaborators d1 of
             Inl e' \<Rightarrow> None
           | Inr d2 \<Rightarrow>
               Some (ds_n (BigWigDataset_iter d2), ds_offset (BigWigDataset_iter d2),
                     ds_super_batch_sequences (BigWigDataset_iter d2) = ds_super_batch_sequences d1,
                     ds_batches_per_epoch d2,
                     length (fst (epoch example_collaborators d2)),
                     fst (snd (epoch example_collaborators d2)))))
     (example_dataset 2 (Some 3) (Some 7))
   = Some (Some (0, 0, True, 7, 6, StopIteration))"
  by code_simp

section \<open>Rows left unread, and a new epoch on old rows\<close>


text \<open>
  C7 as stated fails: with \<^verbatim>\<open>batch_size = 4\<close>, \<^verbatim>\<open>super_batch_size = 8\<close> and
  \<^verbatim>\<open>batches_per_epoch = 1\<close>, the first \<^verbatim>\<open>__next__\<close> of the second epoch makes no call to
  the genome (one call before, one call after) and returns the rows 0 to 3 of the super-batch
  that the first epoch fetched.
\<close>

theorem new_epoch_reads_old_super_batch_counterexample:
  "map_option
     (\<lambda>d. case epoch example_collaborators d of
        (bs1, e1, d1) \<Rightarrow>
          (case BigWigDataset_next example_collaborators (BigWigDataset_iter d1) of
             (r, d2) \<Rightarrow>
               (bs1, sd_genome_calls (ds_super_dataset d1), r, sd_genome_calls (ds_super_dataset d2))))
     (example_dataset 4 (Some 8) (Some 1))
   = Some ([([(0, 0), (0, 1), (0, 2), (0, 3)], [- 500, - 499, - 498, - 497])], 1,
           Inr ([(0, 0), (0, 1), (0, 2), (0, 3)], [- 500, - 499, - 498, - 497]), 1)"
  by code_simp

section \<open>What holds in every reachable state\<close>

lemma BigWigSuperDataset_next_frame:
  assumes "BigWigSuperDataset_next env sd = (r, sd')"
  shows "sd_batch_size sd' = sd_batch_size sd"
    and "sd_batches_per_epoch sd' = sd_batches_per_epoch sd"
    and "sd_allocated sd \<le> 1 \<Longrightarrow> sd_prepared_out sd = (if sd_allocated sd = 0 then None else Some 0) \<Longrightarrow>
           sd_allocated sd' \<le> 1 \<and> sd_prepared_out sd' = (if sd_allocated sd' = 0 then None else Some 0)"
  using assms
  by (auto simp: BigWigSuperDataset_next_def bigwig_collection_def out_buffer_def Let_def
      split: if_splits prod.splits sum.splits option.splits)

lemma consistentD:
  assumes "consistent kw d"
  shows "ds_batch_size d = batch_size kw"
    and "sd_batch_size (ds_super_dataset d) = py_or (super_batch_size kw) (batch_size kw)"
    and "batch_size kw \<le> sd_batch_size (ds_super_dataset d)"
    and "ds_batches_per_epoch d =
         plan_batches_per_epoch (batches_per_epoch kw) (regions_of_interest kw) (sequence_length kw) (batch_size kw)"
    and "sd_batches_per_epoch (ds_super_dataset d) =
         py_or (Some (super_batches_per_epoch (batch_size kw) (ds_batches_per_epoch d) (sd_batch_size (ds_super_dataset d))))
           (default_batches_per_epoch (regions_of_interest kw) (sequence_length kw) (sd_batch_size (ds_super_dataset d)))"
    and "0 \<le> ds_offset d"
    and "ds_offset d \<le> sd_batch_size (ds_super_dataset d)"
    and "ds_offset d mod ds_batch_size d = 0"
    and "(ds_super_batch_sequences d = None) = (ds_super_batch_targets d = None)"
    and "ds_super_batch_sequences d = None \<Longrightarrow> ds_offset d = 0"
    and "sd_allocated (ds_super_dataset d) \<le> 1"
    and "sd_prepared_out (ds_super_dataset d) = (if sd_allocated (ds_super_dataset d) = 0 then None else Some 0)"
  using assms unfolding consistent_def by (auto split: if_splits)

lemma consistent_init:
  assumes "BigWigDataset_init kw = Inr d" and "0 < batch_size kw"
  shows "consistent kw d"
  unfolding consistent_def
  using BigWigDataset_init_fields [OF assms(1)] assms(2) by simp

lemma consistent_iter:
  assumes "consistent kw d"
  shows "consistent kw (BigWigDataset_iter d)"
proof -
  note D = consistentD [OF assms]
  have "0 \<le> sd_batch_size (ds_super_dataset d)"
    using D(6) D(7) by simp
  then show ?thesis
    unfolding consistent_def BigWigDataset_iter_def BigWigSuperDataset_iter_def
    using D(1-5) D(9) D(11) D(12) by simp
qed

lemma BigWigDataset_reset_gpu_Inr:
  assumes "BigWigDataset_reset_gpu env d = Inr d'"
  shows "d' = d \<or> (\<exists>c. d' = d\<lparr>ds_super_dataset := (ds_super_dataset d)\<lparr>sd_bigwig_collection := Some c\<rparr>\<rparr>)"
  using assms
  by (auto simp: BigWigDataset_reset_gpu_def BigWigSuperDataset_reset_gpu_def
      bigwig_collection_def split: sum.splits option.splits)

lemma consistent_reset_gpu:
  assumes "consistent kw d" and "BigWigDataset_reset_gpu env d = Inr d'"
  shows "consistent kw d'"
proof -
  from BigWigDataset_reset_gpu_Inr [OF assms(2)] show ?thesis
  proof
    assume "d' = d"
    with assms(1) show ?thesis by simp
  next
    assume "\<exists>c. d' = d\<lparr>ds_super_dataset := (ds_super_dataset d)\<lparr>sd_bigwig_collection := Some c\<rparr>\<rparr>"
    then obtain c
      where d': "d' = d\<lparr>ds_super_dataset := (ds_super_dataset d)\<lparr>sd_bigwig_collection := Some c\<rparr>\<rparr>"
      by blast
    show ?thesis
      unfolding consistent_def d' using consistentD [OF assms(1)] by simp
  qed
qed

lemma consistent_count:
  assumes "consistent kw d"
  shows "consistent kw (d\<lparr>ds_n := n\<rparr>)"
  unfolding consistent_def using consistentD [OF assms] by simp

lemma needs_refill_count [simp]: "needs_refill (d\<lparr>ds_n := n\<rparr>) = needs_refill d"
  by (simp add: needs_refill_def)

lemma take_batch_loaded:
  assumes "ds_super_batch_sequences d = Some ss" and "ds_super_batch_targets d = Some ts"
  shows "take_batch d =
          (Inr (slice ss (ds_offset d) (ds_offset d + ds_batch_size d),
                slice ts (ds_offset d) (ds_offset d + ds_batch_size d)),
           d\<lparr>ds_offset := ds_offset d + ds_batch_size d\<rparr>)"
  using assms by (simp add: take_batch_def)

lemma not_needs_refillD:
  assumes "\<not> needs_refill d"
  shows "\<exists>ss ts. ds_super_batch_sequences d = Some ss \<and> ds_super_batch_targets d = Some ts"
    and "ds_offset d + ds_batch_size d \<le> sd_batch_size (ds_super_dataset d)"
  using assms by (auto simp: needs_refill_def)

lemma consistent_take_batch:
  assumes "consistent kw d" and "\<not> needs_refill d" and "0 < batch_size kw"
  shows "consistent kw (snd (take_batch d))"
proof -
  note D = consistentD [OF assms(1)]
  from not_needs_refillD [OF assms(2)] obtain ss ts
    where l: "ds_super_batch_sequences d = Some ss" "ds_super_batch_targets d = Some ts"
      and le: "ds_offset d + ds_batch_size d \<le> sd_batch_size (ds_super_dataset d)"
    by blast
  have m: "(ds_offset d + ds_batch_size d) mod ds_batch_size d = 0"
    using D(8) by simp
  show ?thesis
    unfolding consistent_def take_batch_loaded [OF l]
    using D(1-7) D(11) D(12) l le m assms(3) by simp
qed

lemma consistent_refill:
  assumes "consistent kw d" and "0 < batch_size kw"
  shows "case refill env d of Inl (e, d') \<Rightarrow> consistent kw d'
          | Inr d' \<Rightarrow> consistent kw d' \<and> \<not> needs_refill d'"
proof (cases "BigWigSuperDataset_next env (ds_super_dataset d)")
  case (Pair r sd')
  note D = consistentD [OF assms(1)]
  note fr = BigWigSuperDataset_next_frame [OF Pair]
  note fr3 = fr(3) [OF D(11) D(12)]
  show ?thesis
  proof (cases r)
    case (Inl e)
    have "consistent kw (d\<lparr>ds_super_dataset := sd'\<rparr>)"
      unfolding consistent_def using D fr(1,2) fr3 by simp
    with Pair Inl show ?thesis
      by (simp add: refill_def)
  next
    case (Inr b)
    obtain ss ts where b: "b = (ss, ts)" by (cases b)
    let ?d' = "d\<lparr>ds_super_dataset := sd', ds_super_batch_sequences := Some ss,
                  ds_super_batch_targets := Some ts, ds_offset := 0\<rparr>"
    have S: "0 \<le> sd_batch_size (ds_super_dataset d)"
      using D(6) D(7) by simp
    have "consistent kw ?d'"
      unfolding consistent_def using D(1-5) S fr(1,2) fr3 by simp
    moreover have "\<not> needs_refill ?d'"
      using D(1) D(3) fr(1) by (simp add: needs_refill_def)
    ultimately show ?thesis
      using Pair Inr b by (simp add: refill_def)
  qed
qed

lemma consistent_next:
  assumes "consistent kw d" and "0 < batch_size kw"
  shows "consistent kw (snd (BigWigDataset_next env d))"
proof (cases "ds_n d < ds_batches_per_epoch d")
  case False
  with assms show ?thesis by (simp add: BigWigDataset_next_def)
next
  case True
  let ?d1 = "d\<lparr>ds_n := ds_n d + 1\<rparr>"
  have c1: "consistent kw ?d1" using assms(1) by (rule consistent_count)
  show ?thesis
  proof (cases "needs_refill d")
    case False
    with True c1 assms(2) show ?thesis
      by (simp add: BigWigDataset_next_def Let_def consistent_take_batch)
  next
    case nr: True
    show ?thesis
    proof (cases "refill env ?d1")
      case (Inl p)
      with consistent_refill [OF c1 assms(2), of env] True nr show ?thesis
        by (cases p) (simp add: BigWigDataset_next_def Let_def)
    next
      case (Inr d2)
      with consistent_refill [OF c1 assms(2), of env] True nr assms(2) show ?thesis
        by (simp add: BigWigDataset_next_def Let_def consistent_take_batch)
    qed
  qed
qed

lemma reachable_consistent:
  assumes "reachable env kw d" and "0 < batch_size kw"
  shows "consistent kw d"
  using assms
proof (induction rule: reachable.induct)
  case (constructed d)
  then show ?case by (simp add: consistent_init)
next
  case (advanced d)
  then show ?case by (simp add: consistent_next)
next
  case (restarted d)
  then show ?case by (simp add: consistent_iter)
next
  case (reset d d')
  then show ?case by (blast intro: consistent_reset_gpu)
qed

section \<open>The refill policy\<close>

lemma reachable_nexts: "reachable env kw d \<Longrightarrow> reachable env kw (nexts env k d)"
  by (induction k arbitrary: d) (simp_all add: reachable.advanced)

lemma example_dataset_Some:
  "example_dataset B S bpe = Some d \<longleftrightarrow> BigWigDataset_init (example_kwargs B S bpe) = Inr d"
  by (simp add: example_dataset_def split: sum.splits)

lemma slice_rows:
  assumes "0 \<le> i" and "0 \<le> n" and "i + n \<le> int (length xs)"
  shows "slice xs i (i + n) = take (nat n) (drop (nat i) xs)"
    and "length (slice xs i (i + n)) = nat n"
proof -
  have i: "clip_index (length xs) i = nat i"
    using assms by (simp add: clip_index_def)
  have j: "clip_index (length xs) (i + n) = nat i + nat n"
    using assms by (simp add: clip_index_def nat_add_distrib)
  show "slice xs i (i + n) = take (nat n) (drop (nat i) xs)"
    by (simp add: slice_def i j)
  then show "length (slice xs i (i + n)) = nat n"
    using assms by simp
qed

lemma cursor_at_refill:
  fixes B S off :: int
  assumes "0 < B" and "0 \<le> off" and "off \<le> S" and "off mod B = 0" and "S < off + B"
  shows "off = (S div B) * B" and "S - off = S mod B"
proof -
  from assms(4) have "B dvd off"
    by (simp add: mod_eq_0_iff_dvd)
  then obtain q where q: "off = q * B"
    by (auto simp: dvd_def mult.commute)
  have r: "0 \<le> S - off" "S - off < B"
    using assms by simp_all
  have S: "S = (S - off) + q * B"
    using q by simp
  have "S div B = (S - off) div B + q"
    using assms(1) by (subst S) simp
  then have d: "S div B = q"
    using r by simp
  have "S mod B = (S - off) mod B"
    by (subst S) simp
  then have m: "S mod B = S - off"
    using r by simp
  show "off = (S div B) * B" by (simp add: d q)
  show "S - off = S mod B" by (simp add: m)
qed

lemma BigWigDataset_next_refill:
  assumes "ds_n d < ds_batches_per_epoch d" and "needs_refill d"
  shows "ds_super_dataset (snd (BigWigDataset_next env d)) = snd (BigWigSuperDataset_next env (ds_super_dataset d))"
proof (cases "BigWigSuperDataset_next env (ds_super_dataset d)")
  case (Pair r sd')
  show ?thesis
  proof (cases r)
    case (Inl e)
    with Pair assms show ?thesis
      by (simp add: BigWigDataset_next_def Let_def refill_def)
  next
    case (Inr b)
    obtain ss ts where b: "b = (ss, ts)" by (cases b)
    with Pair Inr assms show ?thesis
      by (simp add: BigWigDataset_next_def Let_def refill_def take_batch_def)
  qed
qed

lemma BigWigDataset_next_no_refill:
  assumes "ds_n d < ds_batches_per_epoch d" and "\<not> needs_refill d"
    and "ds_super_batch_sequences d = Some ss" and "ds_super_batch_targets d = Some ts"
  shows "BigWigDataset_next env d =
           (Inr (slice ss (ds_offset d) (ds_offset d + ds_batch_size d),
                 slice ts (ds_offset d) (ds_offset d + ds_batch_size d)),
            d\<lparr>ds_n := ds_n d + 1, ds_offset := ds_offset d + ds_batch_size d\<rparr>)"
  using assms by (simp add: BigWigDataset_next_def Let_def take_batch_def)


section \<open>Across an epoch boundary\<close>

lemma needs_refill_iter:
  assumes "consistent kw d" and "ds_super_batch_sequences d \<noteq> None"
  shows "\<not> needs_refill (BigWigDataset_iter d)"
  using consistentD(1,3,9) [OF assms(1)] assms(2)
  by (simp add: needs_refill_def BigWigDataset_iter_def BigWigSuperDataset_iter_def)

text \<open>
  Claim C7, as the code has it. In every state reached by a dataset with a positive batch
  size, at most one output buffer has been allocated and \<^verbatim>\<open>_prepared_out\<close> is that buffer
  or still \<^verbatim>\<open>None\<close>; \<^verbatim>\<open>__iter__\<close> keeps the buffer and the loaded super-batch. The first
  \<^verbatim>\<open>__next__\<close> of a new epoch with at least one batch returns the rows
  \<open>[0, batch_size)\<close> of the super-batch that was loaded before \<^verbatim>\<open>__iter__\<close>, and leaves
  the inner dataset as \<^verbatim>\<open>__iter__\<close> left it: it fetches nothing. Only when no super-batch
  has been loaded yet does it call the inner dataset.
\<close>

theorem epoch_boundary:
  assumes "reachable env kw d" and "0 < batch_size kw"
  shows "sd_allocated (ds_super_dataset d) \<le> 1
     \<and> sd_prepared_out (ds_super_dataset d) = (if sd_allocated (ds_super_dataset d) = 0 then None else Some 0)
     \<and> sd_prepared_out (ds_super_dataset (BigWigDataset_iter d)) = sd_prepared_out (ds_super_dataset d)
     \<and> ds_super_batch_sequences (BigWigDataset_iter d) = ds_super_batch_sequences d
     \<and> ds_super_batch_targets (BigWigDataset_iter d) = ds_super_batch_targets d
     \<and> (\<forall>ss ts. ds_super_batch_sequences d = Some ss \<and> ds_super_batch_targets d = Some ts
            \<and> 0 < ds_batches_per_epoch d \<longrightarrow>
          BigWigDataset_next env (BigWigDataset_iter d) =
            (Inr (slice ss 0 (ds_batch_size d), slice ts 0 (ds_batch_size d)),
             (BigWigDataset_iter d)\<lparr>ds_n := 1, ds_offset := ds_batch_size d\<rparr>))
     \<and> (ds_super_batch_sequences d = None \<and> 0 < ds_batches_per_epoch d \<longrightarrow>
          ds_super_dataset (snd (BigWigDataset_next env (BigWigDataset_iter d)))
            = snd (BigWigSuperDataset_next env (BigWigSuperDataset_iter (ds_super_dataset d))))"
proof (intro conjI allI impI)
  note c = reachable_consistent [OF assms]
  note D = consistentD [OF c]
  show "sd_allocated (ds_super_dataset d) \<le> 1" by (fact D(11))
  show "sd_prepared_out (ds_super_dataset d) = (if sd_allocated (ds_super_dataset d) = 0 then None else Some 0)"
    by (fact D(12))
  show "sd_prepared_out (ds_super_dataset (BigWigDataset_iter d)) = sd_prepared_out (ds_super_dataset d)"
    by (simp add: BigWigDataset_iter_def BigWigSuperDataset_iter_def)
  show "ds_super_batch_sequences (BigWigDataset_iter d) = ds_super_batch_sequences d"
    by (simp add: BigWigDataset_iter_def)
  show "ds_super_batch_targets (BigWigDataset_iter d) = ds_super_batch_targets d"
    by (simp add: BigWigDataset_iter_def)
  {
    fix ss ts
    assume a: "ds_super_batch_sequences d = Some ss \<and> ds_super_batch_targets d = Some ts
            \<and> 0 < ds_batches_per_epoch d"
    let ?i = "BigWigDataset_iter d"
    have n: "\<not> needs_refill ?i"
      using a by (intro needs_refill_iter [OF c]) simp
    have lt: "ds_n ?i < ds_batches_per_epoch ?i"
      using a by (simp add: BigWigDataset_iter_def)
    have l: "ds_super_batch_sequences ?i = Some ss" "ds_super_batch_targets ?i = Some ts"
      using a by (simp_all add: BigWigDataset_iter_def)
    have f: "ds_offset ?i = 0" "ds_batch_size ?i = ds_batch_size d" "ds_n ?i = 0"
      by (simp_all add: BigWigDataset_iter_def)
    show "BigWigDataset_next env ?i =
            (Inr (slice ss 0 (ds_batch_size d), slice ts 0 (ds_batch_size d)),
             ?i\<lparr>ds_n := 1, ds_offset := ds_batch_size d\<rparr>)"
      using BigWigDataset_next_no_refill [OF lt n l, of env] by (simp only: f) simp
  next
    assume a: "ds_super_batch_sequences d = None \<and> 0 < ds_batches_per_epoch d"
    let ?i = "BigWigDataset_iter d"
    have n: "needs_refill ?i"
      using a by (simp add: needs_refill_def BigWigDataset_iter_def)
    have lt: "ds_n ?i < ds_batches_per_epoch ?i"
      using a by (simp add: BigWigDataset_iter_def)
    show "ds_super_dataset (snd (BigWigDataset_next env ?i))
            = snd (BigWigSuperDataset_next env (BigWigSuperDataset_iter (ds_super_dataset d)))"
      using BigWigDataset_next_refill [OF lt n, of env] by (simp add: BigWigDataset_iter_def)
  }
qed

text \<open>
  The theorem with \<^verbatim>\<open>batch_size = 4\<close>, \<^verbatim>\<open>super_batch_size = 8\<close> and one batch per epoch,
  at the state after the first batch, where the super-batch of the first fetch is loaded (the
  first batch of a new epoch is again its rows 0 to 3, the genome having been called once), and
  at the state the constructor returns, where nothing is loaded (the first \<^verbatim>\<open>__next__\<close>
  calls the genome).
\<close>

theorem epoch_boundary_witness:
  "(\<exists>d0 d. BigWigDataset_init (example_kwargs 4 (Some 8) (Some 1)) = Inr d0
      \<and> d = nexts example_collaborators (Suc 0) d0
      \<and> reachable example_collaborators (example_kwargs 4 (Some 8) (Some 1)) d
      \<and> 0 < batch_size (example_kwargs 4 (Some 8) (Some 1))
      \<and> ds_super_batch_sequences d = Some [(0, 0), (0, 1), (0, 2), (0, 3), (0, 4), (0, 5), (0, 6), (0, 7)]
      \<and> ds_super_batch_targets d = Some [- 500, - 499, - 498, - 497, - 496, - 495, - 494, - 493]
      \<and> 0 < ds_batches_per_epoch d
      \<and> sd_prepared_out (ds_super_dataset d) = Some 0
      \<and> sd_genome_calls (ds_super_dataset d) = 1
      \<and> fst (BigWigDataset_next example_collaborators (BigWigDataset_iter d))
          = Inr ([(0, 0), (0, 1), (0, 2), (0, 3)], [- 500, - 499, - 498, - 497])
      \<and> sd_genome_calls (ds_super_dataset (snd (BigWigDataset_next example_collaborators (BigWigDataset_iter d)))) = 1)
   \<and> (\<exists>d0. BigWigDataset_init (example_kwargs 4 (Some 8) (Some 1)) = Inr d0
      \<and> reachable example_collaborators (example_kwargs 4 (Some 8) (Some 1)) d0
      \<and> ds_super_batch_sequences d0 = None
      \<and> 0 < ds_batches_per_epoch d0
      \<and> sd_genome_calls (ds_super_dataset d0) = 0
      \<and> sd_genome_calls (ds_super_dataset (snd (BigWigDataset_next example_collaborators (BigWigDataset_iter d0)))) = 1)"
proof -
  let ?kw = "example_kwargs 4 (Some 8) (Some 1)"
  obtain d0 :: "(unit, nat \<times> nat, int) BigWigDataset" where i: "BigWigDataset_init ?kw = Inr d0"
    using BigWigDataset_init_ok [of ?kw] by (auto simp: example_kwargs_def py_or_def)
  then have e: "example_dataset 4 (Some 8) (Some 1) = Some d0"
    by (simp add: example_dataset_Some)
  let ?d = "nexts example_collaborators (Suc 0) d0"
  have r0: "reachable example_collaborators ?kw d0"
    by (intro reachable.constructed i)
  have r: "reachable example_collaborators ?kw ?d"
    by (intro reachable_nexts r0)
  have pos: "0 < batch_size ?kw"
    by (simp add: example_kwargs_def)
  have "map_option
          (\<lambda>d0. let d = nexts example_collaborators (Suc 0) d0
                in (ds_batches_per_epoch d, ds_super_batch_sequences d, ds_super_batch_targets d,
                    ds_batch_size d, sd_allocated (ds_super_dataset d), sd_genome_calls (ds_super_dataset d)))
          (example_dataset 4 (Some 8) (Some 1))
        = Some (1, Some [(0, 0), (0, 1), (0, 2), (0, 3), (0, 4), (0, 5), (0, 6), (0, 7)],
                Some [- 500, - 499, - 498, - 497, - 496, - 495, - 494, - 493], 4, 1, 1)"
    by code_simp
  with e have f: "ds_batches_per_epoch ?d = 1"
    "ds_super_batch_sequences ?d = Some [(0, 0), (0, 1), (0, 2), (0, 3), (0, 4), (0, 5), (0, 6), (0, 7)]"
    "ds_super_batch_targets ?d = Some [- 500, - 499, - 498, - 497, - 496, - 495, - 494, - 493]"
    "ds_batch_size ?d = 4" "sd_allocated (ds_super_dataset ?d) = 1" "sd_genome_calls (ds_super_dataset ?d) = 1"
    by (simp_all add: Let_def)
  from epoch_boundary [OF r pos, of ] f
  have 1: "sd_prepared_out (ds_super_dataset ?d) = Some 0"
    and 2: "BigWigDataset_next example_collaborators (BigWigDataset_iter ?d) =
            (Inr ([(0, 0), (0, 1), (0, 2), (0, 3)], [- 500, - 499, - 498, - 497]),
             (BigWigDataset_iter ?d)\<lparr>ds_n := 1, ds_offset := 4\<rparr>)"
    by (simp_all add: slice_def clip_index_def)
  have 3: "sd_genome_calls (ds_super_dataset (snd (BigWigDataset_next example_collaborators (BigWigDataset_iter ?d)))) = 1"
    using f(6) by (simp only: 2) (simp add: BigWigDataset_iter_def BigWigSuperDataset_iter_def)
  have "map_option
          (\<lambda>d0. (ds_super_batch_sequences d0, ds_batches_per_epoch d0, sd_genome_calls (ds_super_dataset d0),
                  sd_genome_calls (snd (BigWigSuperDataset_next example_collaborators
                                           (BigWigSuperDataset_iter (ds_super_dataset d0))))))
          (example_dataset 4 (Some 8) (Some 1))
        = Some (None, 1, 0, 1)"
    by code_simp
  with e have g: "ds_super_batch_sequences d0 = None" "ds_batches_per_epoch d0 = 1"
    "sd_genome_calls (ds_super_dataset d0) = 0"
    "sd_genome_calls (snd (BigWigSuperDataset_next example_collaborators
                              (BigWigSuperDataset_iter (ds_super_dataset d0)))) = 1"
    by simp_all
  from epoch_boundary [OF r0 pos] g
  have 4: "sd_genome_calls (ds_super_dataset (snd (BigWigDataset_next example_collaborators (BigWigDataset_iter d0)))) = 1"
    by simp
  have A: "\<exists>d0 d. BigWigDataset_init ?kw = Inr d0
      \<and> d = nexts example_collaborators (Suc 0) d0
      \<and> reachable example_collaborators ?kw d
      \<and> 0 < batch_size ?kw
      \<and> ds_super_batch_sequences d = Some [(0, 0), (0, 1), (0, 2), (0, 3), (0, 4), (0, 5), (0, 6), (0, 7)]
      \<and> ds_super_batch_targets d = Some [- 500, - 499, - 498, - 497, - 496, - 495, - 494, - 493]
      \<and> 0 < ds_batches_per_epoch d
      \<and> sd_prepared_out (ds_super_dataset d) = Some 0
      \<and> sd_genome_calls (ds_super_dataset d) = 1
      \<and> fst (BigWigDataset_next example_collaborators (BigWigDataset_iter d))
          = Inr ([(0, 0), (0, 1), (0, 2), (0, 3)], [- 500, - 499, - 498, - 497])
      \<and> sd_genome_calls (ds_super_dataset (snd (BigWigDataset_next example_collaborators (BigWigDataset_iter d)))) = 1"
    using i r pos f 1 2 3 by (intro exI [of _ d0] exI [of _ ?d]) simp
  have B: "\<exists>d0. BigWigDataset_init ?kw = Inr d0
      \<and> reachable example_collaborators ?kw d0
      \<and> ds_super_batch_sequences d0 = None
      \<and> 0 < ds_batches_per_epoch d0
      \<and> sd_genome_calls (ds_super_dataset d0) = 0
      \<and> sd_genome_calls (ds_super_dataset (snd (BigWigDataset_next example_collaborators (BigWigDataset_iter d0)))) = 1"
    using i r0 g 4 by (intro exI [of _ d0]) simp
  from A B show ?thesis by (rule conjI)
qed

section \<open>The cap of the inner dataset\<close>



lemma inner_cap_is_ceiling:
  assumes "consistent kw d" and "0 < batch_size kw" and "0 \<le> ds_batches_per_epoch d"
  shows "sd_batches_per_epoch (ds_super_dataset d) =
           super_batches_per_epoch (ds_batch_size d) (ds_batches_per_epoch d) (sd_batch_size (ds_super_dataset d))"
proof -
  note D = consistentD [OF assms(1)]
  let ?B = "batch_size kw" and ?S = "sd_batch_size (ds_super_dataset d)" and ?bpe = "ds_batches_per_epoch d"
  let ?c = "super_batches_per_epoch ?B ?bpe ?S"
  have S: "0 < ?S" using assms(2) D(3) by simp
  show ?thesis
  proof (cases "?c = 0")
    case False
    then show ?thesis by (simp add: D(5) D(1) py_or_Some)
  next
    case True
    have "\<not> 0 < ?bpe"
      using super_batches_per_epoch_pos [OF assms(2) _ S, of ?bpe] True by auto
    with assms(3) have z: "?bpe = 0" by simp
    then have "default_batches_per_epoch (regions_of_interest kw) (sequence_length kw) ?B = 0"
      using D(4) by (auto simp: plan_batches_per_epoch_def py_or_def split: option.splits if_splits)
    then have "total_bases (regions_of_interest kw) div sequence_length kw div ?B = 0"
      by (simp add: default_batches_per_epoch_def)
    then have "0 \<le> total_bases (regions_of_interest kw) div sequence_length kw
        \<and> total_bases (regions_of_interest kw) div sequence_length kw < ?B"
      using assms(2) by (auto simp: zdiv_eq_0_iff)
    then have "total_bases (regions_of_interest kw) div sequence_length kw div ?S = 0"
      using D(3) by (intro div_pos_pos_trivial) simp_all
    then have "default_batches_per_epoch (regions_of_interest kw) (sequence_length kw) ?S = 0"
      by (simp add: default_batches_per_epoch_def)
    with True show ?thesis by (simp add: D(5) D(1) py_or_Some)
  qed
qed

lemma BigWigDataset_next_inner_exhausted:
  assumes "ds_n d < ds_batches_per_epoch d" and "needs_refill d"
    and "sd_batches_per_epoch (ds_super_dataset d) \<le> sd_n (ds_super_dataset d)"
  shows "BigWigDataset_next env d = (Inl StopIteration, d\<lparr>ds_n := ds_n d + 1\<rparr>)"
  using assms
  by (simp add: BigWigDataset_next_def Let_def refill_def BigWigSuperDataset_next_exhausted)



section \<open>Epochs when the super-batch size is a multiple of the batch size\<close>

lemma moving_average_length:
  "\<forall>signal w. length (smoothing signal w) = length signal \<Longrightarrow>
     length (moving_average smoothing signal w) = length signal"
  by (simp add: moving_average_def)

lemma bigwig_collection_resolvable:
  assumes "resolvable sd"
  shows "\<exists>h sd'. bigwig_collection env sd = Inr (h, sd')
           \<and> sd_n sd' = sd_n sd \<and> resolvable sd'
           \<and> sd_window_size sd' = sd_window_size sd
           \<and> sd_moving_average_window_size sd' = sd_moving_average_window_size sd"
  using assms
  by (cases "sd_bigwig_collection sd"; cases "sd_bigwig_path sd")
    (simp_all add: bigwig_collection_def resolvable_def)

lemma BigWigSuperDataset_next_fetch:
  assumes "resolvable sd" and "rows_contract env (sd_batch_size sd)"
    and "sd_n sd < sd_batches_per_epoch sd"
  shows "\<exists>sequences target sd'.
           BigWigSuperDataset_next env sd = (Inr (sequences, target), sd')
           \<and> length sequences = nat (sd_batch_size sd) \<and> length target = nat (sd_batch_size sd)
           \<and> sd_n sd' = sd_n sd + 1 \<and> resolvable sd'"
proof -
  let ?g = "genome_get_batch env (sd_genome_calls sd) (sd_batch_size sd)"
  obtain positions sequences where g: "?g = (positions, sequences)"
    by (cases ?g)
  from assms(2) have "fst ?g \<noteq> []" "length (fst ?g) = nat (sd_batch_size sd)"
    "length (snd ?g) = nat (sd_batch_size sd)"
    by (simp_all add: rows_contract_def)
  with g have p: "positions \<noteq> []" "length positions = nat (sd_batch_size sd)"
    "length sequences = nat (sd_batch_size sd)"
    by simp_all
  from assms(2) have c: "\<And>c chromosomes start stop w.
      length (collection_get_batch env c chromosomes start stop w) = length start"
    and s: "\<forall>signal w. length (smooth env signal w) = length signal"
    by (simp_all add: rows_contract_def)
  let ?sd2 = "sd\<lparr>sd_n := sd_n sd + 1, sd_genome_calls := Suc (sd_genome_calls sd)\<rparr>"
  have "resolvable ?sd2"
    using assms(1) by (simp add: resolvable_def)
  from bigwig_collection_resolvable [OF this, of env]
  obtain h sd3 where b: "bigwig_collection env ?sd2 = Inr (h, sd3)"
    and sd3: "sd_n sd3 = sd_n sd + 1" "resolvable sd3"
      "sd_window_size sd3 = sd_window_size sd"
      "sd_moving_average_window_size sd3 = sd_moving_average_window_size sd"
    by auto
  obtain buf sd4 where o: "out_buffer sd3 = (buf, sd4)"
    and sd4: "sd_n sd4 = sd_n sd3" "resolvable sd4 = resolvable sd3"
      "sd_window_size sd4 = sd_window_size sd3"
      "sd_moving_average_window_size sd4 = sd_moving_average_window_size sd3"
    by (cases "sd_prepared_out sd3") (simp_all add: out_buffer_def resolvable_def)
  let ?target = "moving_average (smooth env)
      (collection_get_batch env h (map fst positions)
         (map (window_start (sd_center_bin_to_predict sd)) (map snd positions))
         (map (window_end (sd_center_bin_to_predict sd)) (map snd positions))
         (sd_window_size sd))
      (sd_moving_average_window_size sd)"
  have n: "BigWigSuperDataset_next env sd = (Inr (sequences, ?target), sd4)"
    using assms(3) g p(1) b o sd3(3,4) sd4(3,4)
    by (simp add: BigWigSuperDataset_next_def Let_def)
  have "length ?target = nat (sd_batch_size sd)"
    using p(2) by (simp add: moving_average_length [OF s] c)
  with n p(3) sd3 sd4 show ?thesis
    by simp
qed

lemma less_ceil_div:
  fixes x a S :: int
  assumes "0 < S" and "x * S < a"
  shows "x < ceil_div a S"
proof -
  have "real_of_int x * real_of_int S < real_of_int a"
    using assms(2) by (metis of_int_less_iff of_int_mult)
  then have "real_of_int x < real_of_int a / real_of_int S"
    using assms(1) by (simp add: pos_less_divide_eq)
  then have "x < \<lceil>real_of_int a / real_of_int S\<rceil>"
    by (simp add: less_ceiling_iff)
  then show ?thesis
    by (simp add: ceil_div_ceiling)
qed
lemma BigWigDataset_next_fetch:
  assumes "ds_n d < ds_batches_per_epoch d" and "needs_refill d"
    and "BigWigSuperDataset_next env (ds_super_dataset d) = (Inr (sequences, target), sd')"
  shows "BigWigDataset_next env d =
           (Inr (slice sequences 0 (ds_batch_size d), slice target 0 (ds_batch_size d)),
            d\<lparr>ds_n := ds_n d + 1, ds_super_dataset := sd',
               ds_super_batch_sequences := Some sequences, ds_super_batch_targets := Some target,
               ds_offset := ds_batch_size d\<rparr>)"
  using assms by (simp add: BigWigDataset_next_def Let_def refill_def take_batch_def)

lemma BigWigDataset_next_cases:
  assumes "resolvable (ds_super_dataset d)"
    and "rows_contract env (sd_batch_size (ds_super_dataset d))"
  shows "BigWigDataset_next env d = (Inl StopIteration, d)
     \<or> BigWigDataset_next env d = (Inl StopIteration, d\<lparr>ds_n := ds_n d + 1\<rparr>)
     \<or> (\<exists>ss ts. ds_super_batch_sequences d = Some ss \<and> ds_super_batch_targets d = Some ts
          \<and> BigWigDataset_next env d =
              (Inr (slice ss (ds_offset d) (ds_offset d + ds_batch_size d),
                    slice ts (ds_offset d) (ds_offset d + ds_batch_size d)),
               d\<lparr>ds_n := ds_n d + 1, ds_offset := ds_offset d + ds_batch_size d\<rparr>))
     \<or> (\<exists>sequences target sd'.
          length sequences = nat (sd_batch_size (ds_super_dataset d))
          \<and> length target = nat (sd_batch_size (ds_super_dataset d))
          \<and> resolvable sd' \<and> sd_batch_size sd' = sd_batch_size (ds_super_dataset d)
          \<and> BigWigDataset_next env d =
              (Inr (slice sequences 0 (ds_batch_size d), slice target 0 (ds_batch_size d)),
               d\<lparr>ds_n := ds_n d + 1, ds_super_dataset := sd',
                  ds_super_batch_sequences := Some sequences, ds_super_batch_targets := Some target,
                  ds_offset := ds_batch_size d\<rparr>))"
proof (cases "ds_n d < ds_batches_per_epoch d")
  case False
  then show ?thesis by (simp add: BigWigDataset_next_exhausted)
next
  case lt: True
  show ?thesis
  proof (cases "needs_refill d")
    case False
    from not_needs_refillD(1) [OF False] obtain ss ts
      where l: "ds_super_batch_sequences d = Some ss" "ds_super_batch_targets d = Some ts"
      by blast
    with BigWigDataset_next_no_refill [OF lt False l, of env] show ?thesis by simp
  next
    case nr: True
    show ?thesis
    proof (cases "sd_n (ds_super_dataset d) < sd_batches_per_epoch (ds_super_dataset d)")
      case False
      then have "BigWigDataset_next env d = (Inl StopIteration, d\<lparr>ds_n := ds_n d + 1\<rparr>)"
        using lt nr by (intro BigWigDataset_next_inner_exhausted) simp_all
      then show ?thesis by simp
    next
      case True
      from BigWigSuperDataset_next_fetch [OF assms True] obtain sequences target sd'
        where n: "BigWigSuperDataset_next env (ds_super_dataset d) = (Inr (sequences, target), sd')"
          and r: "length sequences = nat (sd_batch_size (ds_super_dataset d))"
            "length target = nat (sd_batch_size (ds_super_dataset d))" "resolvable sd'"
        by blast
      have "sd_batch_size sd' = sd_batch_size (ds_super_dataset d)"
        using n by (rule BigWigSuperDataset_next_frame(1))
      with BigWigDataset_next_fetch [OF lt nr n] r show ?thesis by blast
    qed
  qed
qed

lemma ready_next:
  assumes "ready kw d" and "0 < batch_size kw"
    and "rows_contract env (sd_batch_size (ds_super_dataset d))"
  shows "ready kw (snd (BigWigDataset_next env d))"
proof -
  from assms(1) have c: "consistent kw d" and r: "resolvable (ds_super_dataset d)" and l: "loaded_rows d"
    by (simp_all add: ready_def)
  have c': "consistent kw (snd (BigWigDataset_next env d))"
    using c assms(2) by (rule consistent_next)
  have "resolvable (ds_super_dataset (snd (BigWigDataset_next env d)))
      \<and> loaded_rows (snd (BigWigDataset_next env d))"
    using BigWigDataset_next_cases [OF r assms(3)] r l
    by (elim disjE exE conjE) (simp_all add: loaded_rows_def split: option.splits)
  with c' show ?thesis by (simp add: ready_def)
qed

lemma ready_iter:
  assumes "ready kw d"
  shows "ready kw (BigWigDataset_iter d)"
proof -
  from assms have c: "consistent kw d" and r: "resolvable (ds_super_dataset d)" and l: "loaded_rows d"
    by (simp_all add: ready_def)
  have "resolvable (ds_super_dataset (BigWigDataset_iter d))"
    using r by (simp add: BigWigDataset_iter_def BigWigSuperDataset_iter_def resolvable_def)
  moreover have "loaded_rows (BigWigDataset_iter d)"
    using l by (simp add: BigWigDataset_iter_def BigWigSuperDataset_iter_def loaded_rows_def
        split: option.splits)
  ultimately show ?thesis
    using consistent_iter [OF c] by (simp add: ready_def)
qed

lemma ready_reset_gpu:
  assumes "ready kw d" and "BigWigDataset_reset_gpu env d = Inr d'"
  shows "ready kw d'"
proof -
  from assms(1) have c0: "consistent kw d" and r: "resolvable (ds_super_dataset d)" and l: "loaded_rows d"
    by (simp_all add: ready_def)
  have c: "consistent kw d'"
    using c0 assms(2) by (rule consistent_reset_gpu)
  from BigWigDataset_reset_gpu_Inr [OF assms(2)] r l
  have "resolvable (ds_super_dataset d') \<and> loaded_rows d'"
    by (elim disjE exE) (simp_all add: resolvable_def loaded_rows_def split: option.splits)
  with c show ?thesis by (simp add: ready_def)
qed

lemma reachable_ready:
  assumes "reachable env kw d" and "0 < batch_size kw" and "collection kw \<noteq> None"
    and "rows_contract env (py_or (super_batch_size kw) (batch_size kw))"
  shows "ready kw d"
  using assms
proof (induction rule: reachable.induct)
  case (constructed d)
  note f = BigWigDataset_init_fields [OF constructed(1)]
  have "resolvable (ds_super_dataset d)"
    using constructed(3)
    by (cases "collection kw") (auto simp: resolvable_def f(11) f(12) split: collection_arg.splits)
  moreover have "loaded_rows d"
    by (simp add: loaded_rows_def f(9) f(10))
  ultimately show ?case
    using constructed by (simp add: ready_def consistent_init)
next
  case (advanced d)
  then have r: "ready kw d" by simp
  then have "sd_batch_size (ds_super_dataset d) = py_or (super_batch_size kw) (batch_size kw)"
    by (simp add: ready_def consistentD(2))
  with advanced(5) have "rows_contract env (sd_batch_size (ds_super_dataset d))" by simp
  with r advanced(3) show ?case by (rule ready_next)
next
  case (restarted d)
  then show ?case by (simp add: ready_iter)
next
  case (reset d d')
  then show ?case by (blast intro: ready_reset_gpu)
qed
lemma slice_rows_0:
  assumes "0 \<le> n" and "n \<le> int (length xs)"
  shows "length (slice xs 0 n) = nat n"
  using slice_rows(2) [of 0 n xs] assms by simp

lemma on_course_step:
  assumes oc: "on_course kw d" and B: "0 < batch_size kw"
    and rc: "rows_contract env (py_or (super_batch_size kw) (batch_size kw))"
    and m: "py_or (super_batch_size kw) (batch_size kw) mod batch_size kw = 0"
    and lt: "ds_n d < ds_batches_per_epoch d"
  shows "\<exists>b d'. BigWigDataset_next env d = (Inr b, d')
     \<and> length (fst b) = nat (batch_size kw) \<and> length (snd b) = nat (batch_size kw)
     \<and> on_course kw d' \<and> ds_n d' = ds_n d + 1 \<and> ds_batches_per_epoch d' = ds_batches_per_epoch d"
proof -
  from oc have rdy: "ready kw d" and fc: "fetches_covered d"
    and cap: "sd_batches_per_epoch (ds_super_dataset d) =
         super_batches_per_epoch (ds_batch_size d) (ds_batches_per_epoch d) (sd_batch_size (ds_super_dataset d))"
    by (simp_all add: on_course_def)
  from rdy have c: "consistent kw d" and res: "resolvable (ds_super_dataset d)" and lr: "loaded_rows d"
    by (simp_all add: ready_def)
  note D = consistentD [OF c]
  let ?S = "sd_batch_size (ds_super_dataset d)" and ?B = "ds_batch_size d"
  have Bd: "0 < ?B" using B D(1) by simp
  have BS: "?B \<le> ?S" using D(1) D(3) by simp
  have S0: "0 < ?S" using Bd BS by simp
  have rc': "rows_contract env ?S" using rc D(2) by simp
  have m': "?S mod ?B = 0" using m D(1) D(2) by simp
  have n0: "0 \<le> ds_n d" using fc by (simp add: fetches_covered_def)
  let ?d' = "snd (BigWigDataset_next env d)"
  have rdy': "ready kw ?d'"
    using rdy B rc' by (rule ready_next)
  then have c': "consistent kw ?d'" by (simp add: ready_def)
  note D' = consistentD [OF c']
  have frame: "ds_batch_size ?d' = ?B" "sd_batch_size (ds_super_dataset ?d') = ?S"
    "ds_batches_per_epoch ?d' = ds_batches_per_epoch d"
    "sd_batches_per_epoch (ds_super_dataset ?d') = sd_batches_per_epoch (ds_super_dataset d)"
    by (simp_all add: D(1) D(2) D(4) D(5) D'(1) D'(2) D'(4) D'(5))
  have cap': "sd_batches_per_epoch (ds_super_dataset ?d') =
         super_batches_per_epoch (ds_batch_size ?d') (ds_batches_per_epoch ?d') (sd_batch_size (ds_super_dataset ?d'))"
    by (simp only: frame cap)
  have "\<exists>b. BigWigDataset_next env d = (Inr b, ?d')
     \<and> length (fst b) = nat ?B \<and> length (snd b) = nat ?B
     \<and> fetches_covered ?d' \<and> ds_n ?d' = ds_n d + 1"
  proof (cases "needs_refill d")
    case False
    from not_needs_refillD [OF False] obtain ss ts
      where l: "ds_super_batch_sequences d = Some ss" "ds_super_batch_targets d = Some ts"
        and le: "ds_offset d + ?B \<le> ?S"
      by blast
    note n = BigWigDataset_next_no_refill [OF lt False l, of env]
    from lr l have len: "length ss = nat ?S" "length ts = nat ?S"
      by (simp_all add: loaded_rows_def)
    have "ds_offset d + ?B \<le> int (length ss)" "ds_offset d + ?B \<le> int (length ts)"
      using le S0 len by simp_all
    then have rows: "length (slice ss (ds_offset d) (ds_offset d + ?B)) = nat ?B"
      "length (slice ts (ds_offset d) (ds_offset d + ?B)) = nat ?B"
      using D(6) Bd by (simp_all add: slice_rows(2))
    have "sd_n (ds_super_dataset d) * ?S + ds_offset d \<le> ds_n d * ?B + ?S"
      using fc l by (simp add: fetches_covered_def)
    then have "fetches_covered (d\<lparr>ds_n := ds_n d + 1, ds_offset := ds_offset d + ?B\<rparr>)"
      using n0 l by (simp add: fetches_covered_def algebra_simps)
    with n rows show ?thesis by simp
  next
    case nr: True
    have X: "sd_n (ds_super_dataset d) * ?S \<le> ds_n d * ?B"
    proof (cases "ds_super_batch_sequences d")
      case None
      then have "sd_n (ds_super_dataset d) = 0"
        using fc by (simp add: fetches_covered_def)
      with n0 Bd show ?thesis by simp
    next
      case (Some ss)
      with nr D(9) have gt: "?S < ds_offset d + ?B"
        by (auto simp: needs_refill_def)
      have "?S - ds_offset d = ?S mod ?B"
        by (rule cursor_at_refill(2) [OF Bd D(6) D(7) D(8) gt])
      then have "ds_offset d = ?S" using m' by simp
      moreover have "sd_n (ds_super_dataset d) * ?S + ds_offset d \<le> ds_n d * ?B + ?S"
        using fc Some by (simp add: fetches_covered_def)
      ultimately show ?thesis by simp
    qed
    have "ds_n d * ?B < ds_batches_per_epoch d * ?B"
      using lt Bd by simp
    with X have "sd_n (ds_super_dataset d) * ?S < ?B * ds_batches_per_epoch d"
      by (simp add: mult.commute)
    then have "sd_n (ds_super_dataset d) < ceil_div (?B * ds_batches_per_epoch d) ?S"
      using S0 by (intro less_ceil_div)
    then have room: "sd_n (ds_super_dataset d) < sd_batches_per_epoch (ds_super_dataset d)"
      by (simp add: cap super_batches_per_epoch_def)
    from BigWigSuperDataset_next_fetch [OF res rc' room] obtain sequences target sd'
      where f: "BigWigSuperDataset_next env (ds_super_dataset d) = (Inr (sequences, target), sd')"
        and len: "length sequences = nat ?S" "length target = nat ?S"
        and sn: "sd_n sd' = sd_n (ds_super_dataset d) + 1"
      by blast
    note n = BigWigDataset_next_fetch [OF lt nr f]
    have S': "sd_batch_size sd' = ?S"
      using f by (rule BigWigSuperDataset_next_frame(1))
    have "?B \<le> int (length sequences)" "?B \<le> int (length target)"
      using BS S0 len by simp_all
    then have rows: "length (slice sequences 0 ?B) = nat ?B" "length (slice target 0 ?B) = nat ?B"
      using Bd by (simp_all add: slice_rows_0)
    have "fetches_covered (d\<lparr>ds_n := ds_n d + 1, ds_super_dataset := sd',
               ds_super_batch_sequences := Some sequences, ds_super_batch_targets := Some target,
               ds_offset := ?B\<rparr>)"
      using X n0 by (simp add: fetches_covered_def sn S' algebra_simps)
    with n rows show ?thesis by simp
  qed
  then obtain b where n: "BigWigDataset_next env d = (Inr b, ?d')"
    and rows: "length (fst b) = nat ?B" "length (snd b) = nat ?B"
    and fc': "fetches_covered ?d'" and n': "ds_n ?d' = ds_n d + 1"
    by blast
  have oc': "on_course kw ?d'"
    unfolding on_course_def using rdy' fc' cap' by (intro conjI)
  have rows': "length (fst b) = nat (batch_size kw)" "length (snd b) = nat (batch_size kw)"
    using rows D(1) by simp_all
  show ?thesis
    by (intro exI [of _ b] exI [of _ ?d'] conjI n rows' oc' n' frame(3))
qed

lemma drain_on_course:
  assumes B: "0 < batch_size kw"
    and rc: "rows_contract env (py_or (super_batch_size kw) (batch_size kw))"
    and m: "py_or (super_batch_size kw) (batch_size kw) mod batch_size kw = 0"
  shows "on_course kw d \<Longrightarrow> ds_n d \<le> ds_batches_per_epoch d \<Longrightarrow>
     nat (ds_batches_per_epoch d - ds_n d) = k \<Longrightarrow>
     \<exists>bs d'. drain env d = (bs, StopIteration, d') \<and> length bs = k
        \<and> (\<forall>b\<in>set bs. length (fst b) = nat (batch_size kw) \<and> length (snd b) = nat (batch_size kw))"
proof (induction k arbitrary: d)
  case 0
  then have "ds_batches_per_epoch d \<le> ds_n d" by simp
  then have "BigWigDataset_next env d = (Inl StopIteration, d)"
    by (rule BigWigDataset_next_exhausted)
  then have "drain env d = ([], StopIteration, d)"
    by (subst drain.simps) simp
  then show ?case by simp
next
  case (Suc k)
  then have lt: "ds_n d < ds_batches_per_epoch d" by simp
  from on_course_step [OF Suc.prems(1) B rc m lt] obtain b d1
    where n: "BigWigDataset_next env d = (Inr b, d1)"
      and rows: "length (fst b) = nat (batch_size kw)" "length (snd b) = nat (batch_size kw)"
      and oc: "on_course kw d1" and n1: "ds_n d1 = ds_n d + 1"
      and bpe: "ds_batches_per_epoch d1 = ds_batches_per_epoch d"
    by blast
  have "ds_n d1 \<le> ds_batches_per_epoch d1" "nat (ds_batches_per_epoch d1 - ds_n d1) = k"
    using lt Suc.prems(3) n1 bpe by simp_all
  from Suc.IH [OF oc this] obtain bs d'
    where dr: "drain env d1 = (bs, StopIteration, d')" and len: "length bs = k"
      and all: "\<forall>b\<in>set bs. length (fst b) = nat (batch_size kw) \<and> length (snd b) = nat (batch_size kw)"
    by blast
  have "drain env d = (b # bs, StopIteration, d')"
    by (subst drain.simps) (simp add: n dr)
  with len rows all show ?case by simp
qed

text \<open>
  When the super-batch size is a multiple of the batch size, the collection can be opened and
  the collaborators return their rows, an epoch started in any reachable state produces exactly
  \<^verbatim>\<open>batches_per_epoch\<close> batches of \<^verbatim>\<open>batch_size\<close> rows in both outputs and ends with
  \<^verbatim>\<open>StopIteration\<close>. The epochs that end early are those of the other super-batch sizes.
\<close>

theorem epoch_complete_when_multiple:
  assumes "reachable env kw d" and "0 < batch_size kw" and "collection kw \<noteq> None"
    and "rows_contract env (py_or (super_batch_size kw) (batch_size kw))"
    and "py_or (super_batch_size kw) (batch_size kw) mod batch_size kw = 0"
    and "0 \<le> ds_batches_per_epoch d"
  shows "\<exists>bs d'. epoch env d = (bs, StopIteration, d') \<and> length bs = nat (ds_batches_per_epoch d)
     \<and> (\<forall>b\<in>set bs. length (fst b) = nat (batch_size kw) \<and> length (snd b) = nat (batch_size kw))"
proof -
  let ?i = "BigWigDataset_iter d"
  have rdy: "ready kw ?i"
    using reachable_ready [OF assms(1-4)] by (rule ready_iter)
  then have c: "consistent kw ?i" by (simp add: ready_def)
  note D = consistentD [OF c]
  have f: "ds_n ?i = 0" "ds_offset ?i = 0" "sd_n (ds_super_dataset ?i) = 0"
    "ds_batches_per_epoch ?i = ds_batches_per_epoch d"
    by (simp_all add: BigWigDataset_iter_def BigWigSuperDataset_iter_def)
  have "0 \<le> sd_batch_size (ds_super_dataset ?i)"
    using D(6) D(7) by simp
  then have fc: "fetches_covered ?i"
    by (simp add: fetches_covered_def f)
  have "sd_batches_per_epoch (ds_super_dataset ?i) =
         super_batches_per_epoch (ds_batch_size ?i) (ds_batches_per_epoch ?i) (sd_batch_size (ds_super_dataset ?i))"
    using c assms(2) assms(6) by (intro inner_cap_is_ceiling) (simp_all add: f)
  with rdy fc have oc: "on_course kw ?i"
    by (simp add: on_course_def)
  have "ds_n ?i \<le> ds_batches_per_epoch ?i" "nat (ds_batches_per_epoch ?i - ds_n ?i) = nat (ds_batches_per_epoch d)"
    using assms(6) by (simp_all add: f)
  from drain_on_course [OF assms(2) assms(4) assms(5) oc this] show ?thesis
    by (simp add: epoch_def)
qed

text \<open>
  The theorem at \<^verbatim>\<open>batch_size = 4\<close>, \<^verbatim>\<open>super_batch_size = 8\<close> and 3 batches per epoch, with
  the example collaborators, which keep the contract for super-batches of 8 rows.
\<close>

theorem epoch_complete_when_multiple_witness:
  "\<exists>d0 bs d'. BigWigDataset_init (example_kwargs 4 (Some 8) (Some 3)) = Inr d0
     \<and> reachable example_collaborators (example_kwargs 4 (Some 8) (Some 3)) d0
     \<and> rows_contract example_collaborators 8
     \<and> epoch example_collaborators d0 = (bs, StopIteration, d')
     \<and> length bs = 3
     \<and> (\<forall>b\<in>set bs. length (fst b) = 4 \<and> length (snd b) = 4)"
proof -
  let ?kw = "example_kwargs 4 (Some 8) (Some 3)"
  obtain d0 :: "(unit, nat \<times> nat, int) BigWigDataset" where i: "BigWigDataset_init ?kw = Inr d0"
    using BigWigDataset_init_ok [of ?kw] by (auto simp: example_kwargs_def py_or_def)
  have r: "reachable example_collaborators ?kw d0"
    by (intro reachable.constructed i)
  have pos: "0 < batch_size ?kw" and coll: "collection ?kw \<noteq> None"
    and S: "py_or (super_batch_size ?kw) (batch_size ?kw) = 8"
    by (simp_all add: example_kwargs_def py_or_def)
  have rc: "rows_contract example_collaborators 8"
    by (simp add: rows_contract_def example_collaborators_def)
  have bpe: "ds_batches_per_epoch d0 = 3"
    using BigWigDataset_init_fields(2) [OF i]
    by (simp add: example_kwargs_def plan_batches_per_epoch_def py_or_def)
  have "\<exists>bs d'. epoch example_collaborators d0 = (bs, StopIteration, d')
     \<and> length bs = nat (ds_batches_per_epoch d0)
     \<and> (\<forall>b\<in>set bs. length (fst b) = nat (batch_size ?kw) \<and> length (snd b) = nat (batch_size ?kw))"
    using r pos coll
  proof (rule epoch_complete_when_multiple)
    show "rows_contract example_collaborators (py_or (super_batch_size ?kw) (batch_size ?kw))"
      by (simp only: S rc)
    show "py_or (super_batch_size ?kw) (batch_size ?kw) mod batch_size ?kw = 0"
      by (simp add: S) (simp add: example_kwargs_def)
    show "0 \<le> ds_batches_per_epoch d0"
      by (simp add: bpe)
  qed
  then obtain bs d' where "epoch example_collaborators d0 = (bs, StopIteration, d')"
    and "length bs = 3"
    and "\<forall>b\<in>set bs. length (fst b) = 4 \<and> length (snd b) = 4"
    by (auto simp: bpe example_kwargs_def)
  with i r rc show ?thesis by blast
qed

end
